theory Spec2Isabelle
  imports Complex_Main
begin

section \<open>The circular-platform calculation engine of app_circular_platform_mvp.py\<close>

text \<open>
  The source is a single Python script. Its engine is the block of assignments
  ``Core calculations (monthly, scaled)'' (lines 163--196) and the pro forma loop of the
  Admin finance tab (lines 318--362); the helpers \<open>clamp\<close> and \<open>traffic_light\<close> are
  lines 35--47.

  Numbers. Every quantity of the script is a Python \<open>float\<close>. The calculations are
  modelled twice. In \<open>monthly_model\<close> and \<open>pro_forma\<close> the finite floats are
  \<^typ>\<open>real\<close> with exact arithmetic, and the one non-finite value the script writes
  itself, \<open>float("inf")\<close> for the payback, is kept apart by the type \<open>pyfloat\<close>. In
  \<open>monthly_model_fl\<close> every quantity is a \<open>pyfloat\<close>: an operation whose exact result
  lies beyond the largest double gives an infinity, and infinities and NaN propagate as
  IEEE 754 arithmetic has them; only the rounding of results within range is left out.
  Python raises \<open>ZeroDivisionError\<close> on a float division by zero, so \<open>/\<close> is the
  fallible \<open>py_div\<close>, respectively \<open>fl_div\<close>.
\<close>

subsection \<open>Errors and values\<close>

datatype py_error = ZeroDivisionError | KeyError

datatype pyfloat = Finite real | PosInf | NegInf | NaN

definition py_div :: "real \<Rightarrow> real \<Rightarrow> py_error + real" where
  "py_div x y = (if y = 0 then Inl ZeroDivisionError else Inr (x / y))"

subsection \<open>Helpers (lines 35--47)\<close>

text \<open>\<open>def clamp(x, lo, hi): return min(max(float(x), lo), hi)\<close>\<close>

definition clamp :: "real \<Rightarrow> real \<Rightarrow> real \<Rightarrow> real" where
  "clamp x lo hi = min (max x lo) hi"

text \<open>
  \<open>traffic_light\<close> returns one of three one-character strings, a green, a yellow or a
  red circle; the three constructors stand for them.
\<close>

datatype light = Green | Yellow | Red

definition traffic_light :: "real \<Rightarrow> real \<Rightarrow> real \<Rightarrow> light" where
  "traffic_light v target warn_band =
     (if v \<ge> target then Green
      else if v \<ge> target - warn_band then Yellow
      else Red)"

text \<open>The default of the third parameter, \<open>warn_band: float = 0.03\<close>.\<close>

definition warn_band_default :: real where
  "warn_band_default = 0.03"

subsection \<open>The shared inputs (lines 135--158)\<close>

text \<open>
  The script reads its inputs from sidebar widgets into global variables; the record holds
  one field per variable. \<open>default_inputs\<close> are the widgets' \<open>value=\<close> arguments.
\<close>

record inputs =
  sites :: real
  lbs_per_site_month :: real
  recovery_rate :: real
  yield_rate :: real
  downtime_rate :: real
  scrap_rate :: real
  sell_share :: real
  sell_price_lb :: real
  internal_value_lb :: real
  disposal_avoid_lb :: real
  carbon_value_lb :: real
  op_cost_site_month :: real
  capex_per_site :: real
  trainees_per_site_year :: real
  placement_rate :: real
  avg_wage_uplift :: real

definition default_inputs :: inputs where
  "default_inputs =
     \<lparr>sites = 1, lbs_per_site_month = 80000,
      recovery_rate = 0.90, yield_rate = 0.92, downtime_rate = 0.08, scrap_rate = 0.06,
      sell_share = 0.50, sell_price_lb = 10, internal_value_lb = 12,
      disposal_avoid_lb = 0.15, carbon_value_lb = 0.06,
      op_cost_site_month = 18000, capex_per_site = 120000,
      trainees_per_site_year = 80, placement_rate = 0.70, avg_wage_uplift = 8\<rparr>"

subsection \<open>Core calculations, monthly (lines 163--196)\<close>

record snapshot =
  W :: real
  R :: real
  Y :: real
  D :: real
  S :: real
  recovered :: real
  usable :: real
  finished :: real
  sold_lbs :: real
  internal_lbs :: real
  sell_rev :: real
  internal_val :: real
  disp_avoid :: real
  carbon_val :: real
  gross_value :: real
  op_cost :: real
  net_profit :: real
  capex_total :: real
  payback_mo :: pyfloat
  trainees_total_year :: real
  placed_total_year :: real

text \<open>
  Line 186: \<open>payback_mo = float("inf") if net_profit <= 0 else capex_total / net_profit\<close>.
\<close>

definition payback :: "real \<Rightarrow> real \<Rightarrow> py_error + pyfloat" where
  "payback net capex =
     (if net \<le> 0 then Inr PosInf
      else (case py_div capex net of Inl e \<Rightarrow> Inl e | Inr q \<Rightarrow> Inr (Finite q)))"

text \<open>The assignments in the script's order; an exception would end the run.\<close>

definition monthly_model :: "inputs \<Rightarrow> py_error + snapshot" where
  "monthly_model a =
     (let W = lbs_per_site_month a * sites a;
          R = clamp (recovery_rate a) 0 1;
          Y = clamp (yield_rate a) 0 1;
          D = clamp (downtime_rate a) 0 1;
          S = clamp (scrap_rate a) 0 1;
          recovered = W * R;
          usable = recovered * (1 - S);
          finished = usable * Y * (1 - D);
          sold_lbs = finished * clamp (sell_share a) 0 1;
          internal_lbs = finished * (1 - clamp (sell_share a) 0 1);
          sell_rev = sold_lbs * sell_price_lb a;
          internal_val = internal_lbs * internal_value_lb a;
          disp_avoid = recovered * disposal_avoid_lb a;
          carbon_val = recovered * carbon_value_lb a;
          gross_value = sell_rev + internal_val + disp_avoid + carbon_val;
          op_cost = op_cost_site_month a * sites a;
          net_profit = gross_value - op_cost;
          capex_total = capex_per_site a * sites a
      in case payback net_profit capex_total of
           Inl e \<Rightarrow> Inl e
         | Inr p \<Rightarrow>
             (let payback_mo = p;
                  trainees_total_year = trainees_per_site_year a * sites a;
                  placed_total_year = trainees_total_year * placement_rate a
              in Inr \<lparr>W = W, R = R, Y = Y, D = D, S = S,
                      recovered = recovered, usable = usable, finished = finished,
                      sold_lbs = sold_lbs, internal_lbs = internal_lbs,
                      sell_rev = sell_rev, internal_val = internal_val,
                      disp_avoid = disp_avoid, carbon_val = carbon_val,
                      gross_value = gross_value, op_cost = op_cost,
                      net_profit = net_profit, capex_total = capex_total,
                      payback_mo = payback_mo,
                      trainees_total_year = trainees_total_year,
                      placed_total_year = placed_total_year\<rparr>))"

text \<open>The KPI targets (lines 189--192) and the four lights both views show (lines 228--231, 258--261).\<close>

definition target_recovery :: real where "target_recovery = 0.90"
definition target_yield :: real where "target_yield = 0.92"
definition target_downtime_max :: real where "target_downtime_max = 0.08"
definition target_scrap_max :: real where "target_scrap_max = 0.07"

definition kpi_lights :: "snapshot \<Rightarrow> light \<times> light \<times> light \<times> light" where
  "kpi_lights s =
     (traffic_light (R s) target_recovery 0.05,
      traffic_light (Y s) target_yield 0.05,
      traffic_light (1 - D s) (1 - target_downtime_max) 0.05,
      traffic_light (1 - S s) (1 - target_scrap_max) 0.05)"

subsection \<open>The pro forma of the Admin finance tab (lines 305--362)\<close>

text \<open>
  The pro forma's own inputs: the slider \<open>years\<close> and the five percentages, each already
  divided by 100 as the script does on reading them.
\<close>

record pro_forma_inputs =
  years :: int
  growth_sites :: real
  growth_lbs :: real
  growth_price :: real
  growth_cost :: real
  reinvest_rate :: real

text \<open>
  Line 318: \<open>value_per_recovered_lb = 0.0 if recovered <= 0 else gross_value / recovered\<close>.
\<close>

definition value_per_recovered_lb :: "real \<Rightarrow> real \<Rightarrow> py_error + real" where
  "value_per_recovered_lb rec gross =
     (if rec \<le> 0 then Inr 0 else py_div gross rec)"

text \<open>One dictionary of \<open>rows\<close>; the fields are its keys.\<close>

record row =
  Year :: int
  Sites :: real
  Annual_incoming_lbs :: real
  Annual_recovered_lbs :: real
  Gross_value :: real
  Operating_cost :: real
  Net_proceeds :: real
  CapEx_new_sites :: real
  Workforce_reinvest :: real

text \<open>The variables the loop carries from one year to the next.\<close>

record loop_state =
  sites_y :: real
  lbs_site_y :: real
  vpr :: real
  op_cost_site_y :: real
  rows :: "row list"

text \<open>
  The body of \<open>for y in range(1, years + 1)\<close> (lines 330--357). \<open>r\<close> is the global \<open>R\<close>
  and \<open>capex_per_site_local\<close> the copy of \<open>capex_per_site\<close>. The conditional expression of
  line 342 evaluates the division only when \<open>y\<close> is not 1.
\<close>

definition year_body ::
  "real \<Rightarrow> real \<Rightarrow> pro_forma_inputs \<Rightarrow> int \<Rightarrow> loop_state \<Rightarrow> py_error + loop_state" where
  "year_body r capex_per_site_local g y st =
     (let st1 = (if y > 1
                 then st\<lparr>sites_y := sites_y st * (1 + growth_sites g),
                         lbs_site_y := lbs_site_y st * (1 + growth_lbs g),
                         vpr := vpr st * (1 + growth_price g),
                         op_cost_site_y := op_cost_site_y st * (1 + growth_cost g)\<rparr>
                 else st);
          W_y = sites_y st1 * lbs_site_y st1 * 12;
          recovered_y = W_y * r;
          gross_y = recovered_y * vpr st1;
          op_y = sites_y st1 * op_cost_site_y st1;
          net_y = gross_y - op_y
      in case (if y = 1 then Inr (sites_y st1 * capex_per_site_local)
               else (case py_div (sites_y st1) (1 + growth_sites g) of
                       Inl e \<Rightarrow> Inl e
                     | Inr q \<Rightarrow> Inr ((sites_y st1 - q) * capex_per_site_local))) of
           Inl e \<Rightarrow> Inl e
         | Inr c \<Rightarrow>
             (let capex_y = max c 0;
                  workforce_reinvest_y = max net_y 0 * reinvest_rate g
              in Inr (st1\<lparr>rows := rows st1 @
                        [\<lparr>Year = y, Sites = sites_y st1,
                          Annual_incoming_lbs = W_y,
                          Annual_recovered_lbs = recovered_y,
                          Gross_value = gross_y,
                          Operating_cost = op_y,
                          Net_proceeds = net_y,
                          CapEx_new_sites = capex_y,
                          Workforce_reinvest = workforce_reinvest_y\<rparr>]\<rparr>)))"

text \<open>The loop over the values of the range, stopping at the first exception.\<close>

fun pro_forma_loop ::
  "real \<Rightarrow> real \<Rightarrow> pro_forma_inputs \<Rightarrow> int list \<Rightarrow> loop_state \<Rightarrow> py_error + loop_state" where
  "pro_forma_loop r c g [] st = Inr st"
| "pro_forma_loop r c g (y # ys) st =
     (case year_body r c g y st of
        Inl e \<Rightarrow> Inl e
      | Inr st' \<Rightarrow> pro_forma_loop r c g ys st')"

text \<open>\<open>Series.cumsum()\<close>: the running sums of a column, first to last.\<close>

fun cumsum_from :: "real \<Rightarrow> real list \<Rightarrow> real list" where
  "cumsum_from acc [] = []"
| "cumsum_from acc (x # xs) = (acc + x) # cumsum_from (acc + x) xs"

definition cumsum :: "real list \<Rightarrow> real list" where
  "cumsum xs = cumsum_from 0 xs"

text \<open>
  The data frame \<open>pf\<close>: the rows with the two columns lines 361--362 add. A frame made
  from an empty list of rows has no column, and \<open>pf["Net proceeds"]\<close> raises \<open>KeyError\<close>.
\<close>

record frame =
  table :: "row list"
  Cumulative_net_proceeds :: "real list"
  Cumulative_workforce_reinvest :: "real list"

text \<open>
  Lines 318--362 after the monthly calculations: \<open>range(1, years + 1)\<close> is the list
  \<open>[1..years]\<close>.
\<close>

definition pro_forma :: "inputs \<Rightarrow> pro_forma_inputs \<Rightarrow> py_error + frame" where
  "pro_forma a g =
     (case monthly_model a of
        Inl e \<Rightarrow> Inl e
      | Inr s \<Rightarrow>
          (case value_per_recovered_lb (recovered s) (gross_value s) of
             Inl e \<Rightarrow> Inl e
           | Inr v \<Rightarrow>
               (let op_cost_per_site = op_cost_site_month a * 12;
                    capex_per_site_local = capex_per_site a;
                    st0 = \<lparr>sites_y = sites a,
                           lbs_site_y = lbs_per_site_month a,
                           vpr = v,
                           op_cost_site_y = op_cost_per_site,
                           rows = []\<rparr>
                in case pro_forma_loop (R s) capex_per_site_local g [1..years g] st0 of
                     Inl e \<Rightarrow> Inl e
                   | Inr st \<Rightarrow>
                       if rows st = [] then Inl KeyError
                       else Inr \<lparr>table = rows st,
                                 Cumulative_net_proceeds = cumsum (map Net_proceeds (rows st)),
                                 Cumulative_workforce_reinvest =
                                   cumsum (map Workforce_reinvest (rows st))\<rparr>)))"

text \<open>The widgets' defaults for the pro forma (lines 305--314).\<close>

definition default_pro_forma_inputs :: pro_forma_inputs where
  "default_pro_forma_inputs =
     \<lparr>years = 5, growth_sites = 0.25, growth_lbs = 0.05, growth_price = 0.02,
      growth_cost = 0.03, reinvest_rate = 0.30\<rparr>"

subsection \<open>Floats with overflow\<close>

text \<open>
  \<open>max_float\<close> is the largest finite double, \<open>(2 - 2^-52) * 2^1023\<close>. \<open>fl x\<close> is the
  float an operation returns when its exact result is \<open>x\<close>. The operations follow
  IEEE 754 on infinities and NaN: \<open>inf * 0\<close> and \<open>inf - inf\<close> are NaN, every comparison
  with NaN is false. Python's \<open>/\<close> raises on a zero divisor whatever the dividend.
\<close>

definition max_float :: real where
  "max_float = (2 ^ 53 - 1) * 2 ^ 971"

definition fl :: "real \<Rightarrow> pyfloat" where
  "fl x = (if x > max_float then PosInf
           else if x < - max_float then NegInf
           else Finite x)"

fun fl_neg :: "pyfloat \<Rightarrow> pyfloat" where
  "fl_neg (Finite x) = Finite (- x)"
| "fl_neg PosInf = NegInf"
| "fl_neg NegInf = PosInf"
| "fl_neg NaN = NaN"

fun fl_sign :: "pyfloat \<Rightarrow> int" where
  "fl_sign (Finite x) = (if x > 0 then 1 else if x < 0 then -1 else 0)"
| "fl_sign PosInf = 1"
| "fl_sign NegInf = -1"
| "fl_sign NaN = 0"

fun fl_mul :: "pyfloat \<Rightarrow> pyfloat \<Rightarrow> pyfloat" where
  "fl_mul NaN y = NaN"
| "fl_mul x NaN = NaN"
| "fl_mul (Finite x) (Finite y) = fl (x * y)"
| "fl_mul x y =
     (if fl_sign x * fl_sign y > 0 then PosInf
      else if fl_sign x * fl_sign y < 0 then NegInf
      else NaN)"

fun fl_add :: "pyfloat \<Rightarrow> pyfloat \<Rightarrow> pyfloat" where
  "fl_add NaN y = NaN"
| "fl_add x NaN = NaN"
| "fl_add (Finite x) (Finite y) = fl (x + y)"
| "fl_add PosInf NegInf = NaN"
| "fl_add NegInf PosInf = NaN"
| "fl_add PosInf y = PosInf"
| "fl_add NegInf y = NegInf"
| "fl_add x PosInf = PosInf"
| "fl_add x NegInf = NegInf"

definition fl_sub :: "pyfloat \<Rightarrow> pyfloat \<Rightarrow> pyfloat" where
  "fl_sub x y = fl_add x (fl_neg y)"

fun fl_div :: "pyfloat \<Rightarrow> pyfloat \<Rightarrow> py_error + pyfloat" where
  "fl_div x (Finite y) =
     (if y = 0 then Inl ZeroDivisionError
      else (case x of
              Finite a \<Rightarrow> Inr (fl (a / y))
            | PosInf \<Rightarrow> Inr (if y > 0 then PosInf else NegInf)
            | NegInf \<Rightarrow> Inr (if y > 0 then NegInf else PosInf)
            | NaN \<Rightarrow> Inr NaN))"
| "fl_div x NaN = Inr NaN"
| "fl_div (Finite a) y = Inr (Finite 0)"
| "fl_div x y = Inr NaN"

fun fl_le :: "pyfloat \<Rightarrow> pyfloat \<Rightarrow> bool" where
  "fl_le NaN y = False"
| "fl_le x NaN = False"
| "fl_le (Finite x) (Finite y) = (x \<le> y)"
| "fl_le NegInf y = True"
| "fl_le x PosInf = True"
| "fl_le x y = False"

fun fl_lt :: "pyfloat \<Rightarrow> pyfloat \<Rightarrow> bool" where
  "fl_lt NaN y = False"
| "fl_lt x NaN = False"
| "fl_lt (Finite x) (Finite y) = (x < y)"
| "fl_lt PosInf y = False"
| "fl_lt x NegInf = False"
| "fl_lt x y = True"


subsection \<open>Core calculations, monthly, on floats with overflow (lines 163--196)\<close>

text \<open>
  The same assignments as \<open>monthly_model\<close>, operation by operation. The inputs are finite
  floats; \<open>clamp\<close> of a finite float is exact.
\<close>

record float_snapshot =
  W_fl :: pyfloat
  R_fl :: pyfloat
  Y_fl :: pyfloat
  D_fl :: pyfloat
  S_fl :: pyfloat
  recovered_fl :: pyfloat
  usable_fl :: pyfloat
  finished_fl :: pyfloat
  sold_lbs_fl :: pyfloat
  internal_lbs_fl :: pyfloat
  sell_rev_fl :: pyfloat
  internal_val_fl :: pyfloat
  disp_avoid_fl :: pyfloat
  carbon_val_fl :: pyfloat
  gross_value_fl :: pyfloat
  op_cost_fl :: pyfloat
  net_profit_fl :: pyfloat
  capex_total_fl :: pyfloat
  payback_mo_fl :: pyfloat
  trainees_total_year_fl :: pyfloat
  placed_total_year_fl :: pyfloat

definition payback_fl :: "pyfloat \<Rightarrow> pyfloat \<Rightarrow> py_error + pyfloat" where
  "payback_fl net capex =
     (if fl_le net (Finite 0) then Inr PosInf else fl_div capex net)"

definition monthly_model_fl :: "inputs \<Rightarrow> py_error + float_snapshot" where
  "monthly_model_fl a =
     (let W = fl_mul (Finite (lbs_per_site_month a)) (Finite (sites a));
          R = Finite (clamp (recovery_rate a) 0 1);
          Y = Finite (clamp (yield_rate a) 0 1);
          D = Finite (clamp (downtime_rate a) 0 1);
          S = Finite (clamp (scrap_rate a) 0 1);
          recovered = fl_mul W R;
          usable = fl_mul recovered (fl_sub (Finite 1) S);
          finished = fl_mul (fl_mul usable Y) (fl_sub (Finite 1) D);
          sold_lbs = fl_mul finished (Finite (clamp (sell_share a) 0 1));
          internal_lbs = fl_mul finished (fl_sub (Finite 1) (Finite (clamp (sell_share a) 0 1)));
          sell_rev = fl_mul sold_lbs (Finite (sell_price_lb a));
          internal_val = fl_mul internal_lbs (Finite (internal_value_lb a));
          disp_avoid = fl_mul recovered (Finite (disposal_avoid_lb a));
          carbon_val = fl_mul recovered (Finite (carbon_value_lb a));
          gross_value = fl_add (fl_add (fl_add sell_rev internal_val) disp_avoid) carbon_val;
          op_cost = fl_mul (Finite (op_cost_site_month a)) (Finite (sites a));
          net_profit = fl_sub gross_value op_cost;
          capex_total = fl_mul (Finite (capex_per_site a)) (Finite (sites a))
      in case payback_fl net_profit capex_total of
           Inl e \<Rightarrow> Inl e
         | Inr p \<Rightarrow>
             (let payback_mo = p;
                  trainees_total_year = fl_mul (Finite (trainees_per_site_year a)) (Finite (sites a));
                  placed_total_year = fl_mul trainees_total_year (Finite (placement_rate a))
              in Inr \<lparr>W_fl = W, R_fl = R, Y_fl = Y, D_fl = D, S_fl = S,
                      recovered_fl = recovered, usable_fl = usable, finished_fl = finished,
                      sold_lbs_fl = sold_lbs, internal_lbs_fl = internal_lbs,
                      sell_rev_fl = sell_rev, internal_val_fl = internal_val,
                      disp_avoid_fl = disp_avoid, carbon_val_fl = carbon_val,
                      gross_value_fl = gross_value, op_cost_fl = op_cost,
                      net_profit_fl = net_profit, capex_total_fl = capex_total,
                      payback_mo_fl = payback_mo,
                      trainees_total_year_fl = trainees_total_year,
                      placed_total_year_fl = placed_total_year\<rparr>))"

text \<open>
  The comparison \<open>0 <= finished <= usable <= recovered <= W\<close> as Python evaluates it.
\<close>

definition flow_chain :: "float_snapshot \<Rightarrow> bool" where
  "flow_chain s =
     (fl_le (Finite 0) (finished_fl s) \<and> fl_le (finished_fl s) (usable_fl s)
      \<and> fl_le (usable_fl s) (recovered_fl s) \<and> fl_le (recovered_fl s) (W_fl s))"

text \<open>
  Two inputs whose products leave the double range: \<open>1e200 * 1e200\<close>.
\<close>

definition overflowing_flow_inputs :: inputs where
  "overflowing_flow_inputs =
     default_inputs\<lparr>sites := 10 ^ 200, lbs_per_site_month := 10 ^ 200, recovery_rate := 0\<rparr>"

definition overflowing_cost_inputs :: inputs where
  "overflowing_cost_inputs =
     default_inputs\<lparr>sites := 10 ^ 200, lbs_per_site_month := 10 ^ 200,
                    op_cost_site_month := 10 ^ 200\<rparr>"

subsection \<open>The loop in closed form\<close>

text \<open>
  The state the loop starts from (lines 324--327), the row it appends in year \<open>i + 1\<close>,
  and its state after \<open>n\<close> years, written without the loop: every carried variable is
  its seed times \<open>(1 + growth)\<close> to the number of years after the first. They are proved
  equal to what \<open>pro_forma_loop\<close> computes (\<open>loop_closed\<close>), and \<open>frame_of\<close> is the
  frame the script builds from the rows.
\<close>

definition seed :: "inputs \<Rightarrow> real \<Rightarrow> loop_state" where
  "seed a v = \<lparr>sites_y = sites a, lbs_site_y = lbs_per_site_month a, vpr = v,
      op_cost_site_y = op_cost_site_month a * 12, rows = []\<rparr>"

definition year_row :: "real \<Rightarrow> real \<Rightarrow> pro_forma_inputs \<Rightarrow> loop_state \<Rightarrow> nat \<Rightarrow> row" where
  "year_row r c g st0 i =
     (let s = sites_y st0 * (1 + growth_sites g) ^ i;
          l = lbs_site_y st0 * (1 + growth_lbs g) ^ i;
          v = vpr st0 * (1 + growth_price g) ^ i;
          oc = op_cost_site_y st0 * (1 + growth_cost g) ^ i;
          net = s * l * 12 * r * v - s * oc
      in \<lparr>Year = int i + 1, Sites = s,
          Annual_incoming_lbs = s * l * 12,
          Annual_recovered_lbs = s * l * 12 * r,
          Gross_value = s * l * 12 * r * v,
          Operating_cost = s * oc,
          Net_proceeds = net,
          CapEx_new_sites = max (if i = 0 then s * c else (s - s / (1 + growth_sites g)) * c) 0,
          Workforce_reinvest = max net 0 * reinvest_rate g\<rparr>)"

definition state_after :: "real \<Rightarrow> real \<Rightarrow> pro_forma_inputs \<Rightarrow> loop_state \<Rightarrow> nat \<Rightarrow> loop_state" where
  "state_after r c g st0 n =
     \<lparr>sites_y = sites_y st0 * (1 + growth_sites g) ^ (n - 1),
      lbs_site_y = lbs_site_y st0 * (1 + growth_lbs g) ^ (n - 1),
      vpr = vpr st0 * (1 + growth_price g) ^ (n - 1),
      op_cost_site_y = op_cost_site_y st0 * (1 + growth_cost g) ^ (n - 1),
      rows = rows st0 @ map (year_row r c g st0) [0..<n]\<rparr>"

definition frame_of :: "row list \<Rightarrow> frame" where
  "frame_of rs = \<lparr>table = rs,
      Cumulative_net_proceeds = cumsum (map Net_proceeds rs),
      Cumulative_workforce_reinvest = cumsum (map Workforce_reinvest rs)\<rparr>"

subsection \<open>The inputs with five rates clamped\<close>

text \<open>
  The inputs as the monthly calculations read them: the five rates the script passes
  through \<open>clamp\<close> replaced by their clamped values. Used to state that the outputs depend
  on those rates through \<open>clamp\<close> only.
\<close>

definition clamp_rates :: "inputs \<Rightarrow> inputs" where
  "clamp_rates a =
     a\<lparr>recovery_rate := clamp (recovery_rate a) 0 1,
       yield_rate := clamp (yield_rate a) 0 1,
       downtime_rate := clamp (downtime_rate a) 0 1,
       scrap_rate := clamp (scrap_rate a) 0 1,
       sell_share := clamp (sell_share a) 0 1\<rparr>"

section \<open>Properties of the monthly model\<close>

lemma clamp_unit_bounds: "0 \<le> clamp x 0 1 \<and> clamp x 0 1 \<le> 1"
  by (simp add: clamp_def)

lemma clamp_unit_id: "0 \<le> x \<Longrightarrow> x \<le> 1 \<Longrightarrow> clamp x 0 1 = x"
  by (simp add: clamp_def)

lemma payback_total: "\<exists>p. payback net capex = Inr p"
  by (simp add: payback_def py_div_def)

lemma monthly_model_fields:
  "\<exists>s. monthly_model a = Inr s
     \<and> W s = lbs_per_site_month a * sites a
     \<and> R s = clamp (recovery_rate a) 0 1
     \<and> Y s = clamp (yield_rate a) 0 1
     \<and> D s = clamp (downtime_rate a) 0 1
     \<and> S s = clamp (scrap_rate a) 0 1
     \<and> recovered s = W s * R s
     \<and> usable s = recovered s * (1 - S s)
     \<and> finished s = usable s * Y s * (1 - D s)
     \<and> sold_lbs s = finished s * clamp (sell_share a) 0 1
     \<and> internal_lbs s = finished s * (1 - clamp (sell_share a) 0 1)
     \<and> sell_rev s = sold_lbs s * sell_price_lb a
     \<and> internal_val s = internal_lbs s * internal_value_lb a
     \<and> disp_avoid s = recovered s * disposal_avoid_lb a
     \<and> carbon_val s = recovered s * carbon_value_lb a
     \<and> gross_value s = sell_rev s + internal_val s + disp_avoid s + carbon_val s
     \<and> op_cost s = op_cost_site_month a * sites a
     \<and> net_profit s = gross_value s - op_cost s
     \<and> capex_total s = capex_per_site a * sites a
     \<and> payback (net_profit s) (capex_total s) = Inr (payback_mo s)
     \<and> trainees_total_year s = trainees_per_site_year a * sites a
     \<and> placed_total_year s = trainees_total_year s * placement_rate a"
proof -
  let ?W = "lbs_per_site_month a * sites a"
  let ?rec = "?W * clamp (recovery_rate a) 0 1"
  let ?fin = "?rec * (1 - clamp (scrap_rate a) 0 1) * clamp (yield_rate a) 0 1 * (1 - clamp (downtime_rate a) 0 1)"
  let ?gross = "?fin * clamp (sell_share a) 0 1 * sell_price_lb a
      + ?fin * (1 - clamp (sell_share a) 0 1) * internal_value_lb a
      + ?rec * disposal_avoid_lb a + ?rec * carbon_value_lb a"
  obtain p where p: "payback (?gross - op_cost_site_month a * sites a) (capex_per_site a * sites a) = Inr p"
    using payback_total by blast
  show ?thesis
    using p by (simp add: monthly_model_def Let_def)
qed

lemma default_gross:
  "monthly_model default_inputs = Inr s \<Longrightarrow> gross_value s = 645247.872 \<and> op_cost s = 18000 \<and> finished s = 57284.352 \<and> recovered s = 72000 \<and> usable s = 67680"
  by (auto simp add: monthly_model_def Let_def default_inputs_def clamp_def payback_def py_div_def split: if_splits)

text \<open>
  C3, as the spec states it, gives \<open>finished = 57,288.58...\<close> for the default inputs. The
  script's value is \<open>57284.352\<close>, which is below \<open>57288.58\<close>.
\<close>

theorem default_flow_counterexample:
  "map_sum id finished (monthly_model default_inputs) = Inr 57284.352
   \<and> (57284.352 :: real) < 57288.58"
proof -
  obtain s where s: "monthly_model default_inputs = Inr s"
    using monthly_model_fields [of default_inputs] by blast
  show ?thesis using s default_gross [OF s] by simp
qed

text \<open>
  C3, amended. With the default inputs (\<open>sites = 1\<close>, \<open>lbs_per_site_month = 80000\<close>,
  \<open>recovery_rate = 0.90\<close>, \<open>scrap_rate = 0.06\<close>, \<open>yield_rate = 0.92\<close>,
  \<open>downtime_rate = 0.08\<close>) the monthly calculations give \<open>recovered = 72000\<close>,
  \<open>usable = 67680\<close> and
  \<open>finished = usable * yield_rate * (1 - downtime_rate) = 67680 * 0.92 * 0.92 = 57284.352\<close>.
\<close>

theorem default_flow:
  "\<exists>s. monthly_model default_inputs = Inr s
     \<and> recovered s = 72000 \<and> usable s = 67680
     \<and> finished s = usable s * yield_rate default_inputs * (1 - downtime_rate default_inputs)
     \<and> finished s = 67680 * 0.92 * 0.92
     \<and> finished s = 57284.352"
proof -
  obtain s where s: "monthly_model default_inputs = Inr s"
    using monthly_model_fields [of default_inputs] by blast
  show ?thesis using s default_gross [OF s] by (simp add: default_inputs_def)
qed

lemma clamp_idem: "clamp (clamp x 0 1) 0 1 = clamp x 0 1"
  by (simp add: clamp_def)

lemma clamp_rates_clamped:
  "clamp (recovery_rate (clamp_rates a)) 0 1 = clamp (recovery_rate a) 0 1"
  "clamp (yield_rate (clamp_rates a)) 0 1 = clamp (yield_rate a) 0 1"
  "clamp (downtime_rate (clamp_rates a)) 0 1 = clamp (downtime_rate a) 0 1"
  "clamp (scrap_rate (clamp_rates a)) 0 1 = clamp (scrap_rate a) 0 1"
  "clamp (sell_share (clamp_rates a)) 0 1 = clamp (sell_share a) 0 1"
  by (simp_all add: clamp_rates_def clamp_idem)

lemma clamp_rates_other:
  "sites (clamp_rates a) = sites a"
  "lbs_per_site_month (clamp_rates a) = lbs_per_site_month a"
  "sell_price_lb (clamp_rates a) = sell_price_lb a"
  "internal_value_lb (clamp_rates a) = internal_value_lb a"
  "disposal_avoid_lb (clamp_rates a) = disposal_avoid_lb a"
  "carbon_value_lb (clamp_rates a) = carbon_value_lb a"
  "op_cost_site_month (clamp_rates a) = op_cost_site_month a"
  "capex_per_site (clamp_rates a) = capex_per_site a"
  "trainees_per_site_year (clamp_rates a) = trainees_per_site_year a"
  "placement_rate (clamp_rates a) = placement_rate a"
  by (simp_all add: clamp_rates_def)

lemma monthly_model_clamp_rates: "monthly_model (clamp_rates a) = monthly_model a"
  unfolding monthly_model_def clamp_rates_clamped clamp_rates_other ..

lemma pro_forma_clamp_rates: "pro_forma (clamp_rates a) g = pro_forma a g"
  unfolding pro_forma_def monthly_model_clamp_rates clamp_rates_other ..

text \<open>
  C4, as the spec states it, has \<open>placement_rate\<close> clamped like the other rates. The
  script multiplies by \<open>placement_rate\<close> as given: with 80 trainees and
  \<open>placement_rate = 2\<close> it places 160, where the clamped rate would give 80.
\<close>

theorem rates_clamped_counterexample:
  "map_sum id placed_total_year (monthly_model (default_inputs\<lparr>placement_rate := 2\<rparr>)) = Inr 160
   \<and> map_sum id placed_total_year
        (monthly_model (default_inputs\<lparr>placement_rate := clamp 2 0 1\<rparr>)) = Inr 80"
proof -
  have *: "\<And>x. \<exists>s. monthly_model (default_inputs\<lparr>placement_rate := x\<rparr>) = Inr s
       \<and> placed_total_year s = 80 * x"
    using monthly_model_fields by (fastforce simp add: default_inputs_def)
  show ?thesis using * [of 2] * [of "clamp 2 0 1"] by (auto simp add: clamp_def)
qed

text \<open>
  C4, amended. For every input, \<open>recovery_rate\<close>, \<open>yield_rate\<close>, \<open>downtime_rate\<close>,
  \<open>scrap_rate\<close> and \<open>sell_share\<close> are clamped into \<open>[0,1]\<close> before anything is computed
  from them: the monthly calculations and the pro forma give the same result on the inputs
  and on the inputs with these five rates clamped, and \<open>R\<close>, \<open>Y\<close>, \<open>D\<close>, \<open>S\<close> lie in
  \<open>[0,1]\<close>. \<open>placement_rate\<close> is used as given:
  \<open>placed_total_year = trainees_per_site_year * sites * placement_rate\<close>.
\<close>

theorem rates_clamped_before_use:
  "monthly_model (clamp_rates a) = monthly_model a
   \<and> pro_forma (clamp_rates a) g = pro_forma a g
   \<and> (\<exists>s. monthly_model a = Inr s
         \<and> 0 \<le> R s \<and> R s \<le> 1 \<and> 0 \<le> Y s \<and> Y s \<le> 1
         \<and> 0 \<le> D s \<and> D s \<le> 1 \<and> 0 \<le> S s \<and> S s \<le> 1
         \<and> sold_lbs s = finished s * clamp (sell_share a) 0 1
         \<and> internal_lbs s = finished s * (1 - clamp (sell_share a) 0 1)
         \<and> placed_total_year s = trainees_per_site_year a * sites a * placement_rate a)"
proof -
  obtain s where s: "monthly_model a = Inr s"
    and "R s = clamp (recovery_rate a) 0 1"
    and "Y s = clamp (yield_rate a) 0 1"
    and "D s = clamp (downtime_rate a) 0 1"
    and "S s = clamp (scrap_rate a) 0 1"
    and "sold_lbs s = finished s * clamp (sell_share a) 0 1"
    and "internal_lbs s = finished s * (1 - clamp (sell_share a) 0 1)"
    and "trainees_total_year s = trainees_per_site_year a * sites a"
    and "placed_total_year s = trainees_total_year s * placement_rate a"
    using monthly_model_fields [of a] by blast
  then have "\<exists>s. monthly_model a = Inr s
         \<and> 0 \<le> R s \<and> R s \<le> 1 \<and> 0 \<le> Y s \<and> Y s \<le> 1
         \<and> 0 \<le> D s \<and> D s \<le> 1 \<and> 0 \<le> S s \<and> S s \<le> 1
         \<and> sold_lbs s = finished s * clamp (sell_share a) 0 1
         \<and> internal_lbs s = finished s * (1 - clamp (sell_share a) 0 1)
         \<and> placed_total_year s = trainees_per_site_year a * sites a * placement_rate a"
    using clamp_unit_bounds by auto
  then show ?thesis
    using monthly_model_clamp_rates pro_forma_clamp_rates by simp
qed

text \<open>
  C7. The ratio that seeds the pro forma, \<open>value_per_recovered_lb\<close>, is
  \<open>gross_value / recovered\<close> when \<open>recovered > 0\<close> and \<open>0\<close> when \<open>recovered \<le> 0\<close>; in both
  cases it is a value, never an exception.
\<close>

theorem value_per_recovered_lb_total:
  "(0 < rec \<longrightarrow> value_per_recovered_lb rec gross = Inr (gross / rec))
   \<and> (rec \<le> 0 \<longrightarrow> value_per_recovered_lb rec gross = Inr 0)"
  by (simp add: value_per_recovered_lb_def py_div_def)

theorem value_per_recovered_lb_total_witness:
  "(0::real) < 72000 \<and> value_per_recovered_lb 72000 645247.872 = Inr (645247.872 / 72000)
   \<and> (0::real) \<le> 0 \<and> value_per_recovered_lb 0 5 = Inr 0
   \<and> value_per_recovered_lb (-3) 5 = Inr 0"
  using value_per_recovered_lb_total [of 72000 "645247.872"]
    value_per_recovered_lb_total [of 0 5] value_per_recovered_lb_total [of "-3" 5]
  by simp

text \<open>
  C9. Called with the band \<open>0.05\<close>, as every call of the script does (\<open>kpi_lights\<close>),
  \<open>traffic_light\<close> is green exactly when \<open>value \<ge> target\<close>, yellow exactly when
  \<open>target - 0.05 \<le> value < target\<close>, and red exactly when \<open>value < target - 0.05\<close>.
  The parameter's default, \<open>0.03\<close>, is used by no call.
\<close>

theorem traffic_light_bands:
  "(traffic_light v target 0.05 = Green \<longleftrightarrow> v \<ge> target)
   \<and> (traffic_light v target 0.05 = Yellow \<longleftrightarrow> target - 0.05 \<le> v \<and> v < target)
   \<and> (traffic_light v target 0.05 = Red \<longleftrightarrow> v < target - 0.05)"
  by (auto simp add: traffic_light_def)


section \<open>Properties of the pro forma\<close>

lemma pro_forma_loop_append:
  "pro_forma_loop r c g (xs @ ys) st =
     (case pro_forma_loop r c g xs st of
        Inl e \<Rightarrow> Inl e
      | Inr st' \<Rightarrow> pro_forma_loop r c g ys st')"
  by (induction xs arbitrary: st) (auto split: sum.splits)

lemma state_after_0: "state_after r c g st0 0 = st0"
  by (simp add: state_after_def)

lemma year_body_first:
  "year_body r c g 1 (state_after r c g st0 0) = Inr (state_after r c g st0 1)"
  by (simp add: state_after_def year_body_def year_row_def Let_def)

lemma year_body_later:
  assumes "0 < n" "growth_sites g \<noteq> -1"
  shows "year_body r c g (int n + 1) (state_after r c g st0 n) = Inr (state_after r c g st0 (Suc n))"
proof -
  obtain m where n: "n = Suc m" using assms(1) by (cases n) auto
  have nz: "1 + growth_sites g \<noteq> 0" using assms(2) by linarith
  show ?thesis
    unfolding n using nz
    by (simp add: state_after_def year_body_def year_row_def Let_def py_div_def mult_ac)
qed

lemma loop_closed:
  "n \<le> 1 \<or> growth_sites g \<noteq> -1 \<Longrightarrow>
   pro_forma_loop r c g [1..int n] st0 = Inr (state_after r c g st0 n)"
proof (induction n)
  case 0
  then show ?case by (simp add: state_after_0)
next
  case (Suc n)
  have up: "[1..int (Suc n)] = [1..int n] @ [int n + 1]"
    using upto_rec2 [of 1 "int (Suc n)"] by simp
  have ih: "pro_forma_loop r c g [1..int n] st0 = Inr (state_after r c g st0 n)"
    using Suc by auto
  have split: "pro_forma_loop r c g [1..int (Suc n)] st0 =
      pro_forma_loop r c g [int n + 1] (state_after r c g st0 n)"
    unfolding up pro_forma_loop_append ih by simp
  have "year_body r c g (int n + 1) (state_after r c g st0 n) =
      Inr (state_after r c g st0 (Suc n))"
  proof (cases "n = 0")
    case True
    then show ?thesis using year_body_first [of r c g st0] by simp
  next
    case False
    then have "growth_sites g \<noteq> -1" "0 < n" using Suc.prems by auto
    then show ?thesis using year_body_later [of n g r c st0] by simp
  qed
  then show ?case unfolding split by simp
qed

lemma loop_div_zero:
  assumes "1 < y" "growth_sites g = -1"
  shows "pro_forma_loop r c g [1..y] st = Inl ZeroDivisionError"
proof -
  have "[1..y] = 1 # 2 # [3..y]"
    using assms(1) upto_rec1 [of 1 y] upto_rec1 [of 2 y] by simp
  then show ?thesis
    using assms(2) by (simp add: year_body_def Let_def py_div_def)
qed

lemma value_per_recovered_lb_Inr:
  "value_per_recovered_lb x y = Inr (if x \<le> 0 then 0 else y / x)"
  by (simp add: value_per_recovered_lb_def py_div_def)

lemma pro_forma_result:
  "\<exists>s v. monthly_model a = Inr s
     \<and> value_per_recovered_lb (recovered s) (gross_value s) = Inr v
     \<and> pro_forma a g =
         (if years g \<le> 0 then Inl KeyError
          else if 1 < years g \<and> growth_sites g = -1 then Inl ZeroDivisionError
          else Inr (frame_of (map (year_row (R s) (capex_per_site a) g (seed a v))
                                 [0..<nat (years g)])))"
proof -
  obtain s where s: "monthly_model a = Inr s"
    using monthly_model_fields [of a] by blast
  obtain v where v: "value_per_recovered_lb (recovered s) (gross_value s) = Inr v"
    using value_per_recovered_lb_Inr by blast
  let ?loop = "pro_forma_loop (R s) (capex_per_site a) g [1..years g] (seed a v)"
  have pf: "pro_forma a g =
      (case ?loop of Inl e \<Rightarrow> Inl e
       | Inr st \<Rightarrow> if rows st = [] then Inl KeyError else Inr (frame_of (rows st)))"
    unfolding pro_forma_def frame_of_def seed_def by (simp add: s v)
  have "pro_forma a g =
         (if years g \<le> 0 then Inl KeyError
          else if 1 < years g \<and> growth_sites g = -1 then Inl ZeroDivisionError
          else Inr (frame_of (map (year_row (R s) (capex_per_site a) g (seed a v))
                                 [0..<nat (years g)])))"
  proof (cases "years g \<le> 0")
    case True
    then have "?loop = Inr (seed a v)" by simp
    then show ?thesis using True pf by (simp add: seed_def)
  next
    case False
    note pos = this
    show ?thesis
    proof (cases "1 < years g \<and> growth_sites g = -1")
      case True
      then have "?loop = Inl ZeroDivisionError" using loop_div_zero by blast
      then show ?thesis using True pos pf by simp
    next
      case False
      have yn: "int (nat (years g)) = years g" using pos by simp
      have "nat (years g) \<le> 1 \<or> growth_sites g \<noteq> -1" using False by auto
      then have "pro_forma_loop (R s) (capex_per_site a) g [1..int (nat (years g))] (seed a v)
          = Inr (state_after (R s) (capex_per_site a) g (seed a v) (nat (years g)))"
        by (rule loop_closed)
      then have l: "?loop = Inr (state_after (R s) (capex_per_site a) g (seed a v) (nat (years g)))"
        unfolding yn .
      have r: "rows (state_after (R s) (capex_per_site a) g (seed a v) (nat (years g)))
          = map (year_row (R s) (capex_per_site a) g (seed a v)) [0..<nat (years g)]"
        by (simp add: state_after_def seed_def)
      have ne: "map (year_row (R s) (capex_per_site a) g (seed a v)) [0..<nat (years g)] \<noteq> []"
        using pos by simp
      show ?thesis using False pos pf l r ne by simp
    qed
  qed
  then show ?thesis using s v by blast
qed

lemma length_cumsum_from: "length (cumsum_from acc xs) = length xs"
  by (induction xs arbitrary: acc) simp_all

lemma nth_cumsum_from:
  "i < length xs \<Longrightarrow> cumsum_from acc xs ! i = acc + sum_list (take (Suc i) xs)"
proof (induction xs arbitrary: acc i)
  case Nil
  then show ?case by simp
next
  case (Cons x xs)
  then show ?case by (cases i) simp_all
qed

lemma length_cumsum: "length (cumsum xs) = length xs"
  by (simp add: cumsum_def length_cumsum_from)

lemma nth_cumsum: "i < length xs \<Longrightarrow> cumsum xs ! i = sum_list (take (Suc i) xs)"
  by (simp add: cumsum_def nth_cumsum_from)

lemma sum_list_take_mono:
  assumes "\<forall>x \<in> set xs. (0::real) \<le> x" "i \<le> j"
  shows "sum_list (take i xs) \<le> sum_list (take j xs)"
proof -
  have "take j xs = take i xs @ take (j - i) (drop i xs)"
    using assms(2) by (metis le_add_diff_inverse take_add)
  moreover have "0 \<le> sum_list (take (j - i) (drop i xs))"
    using assms(1) by (meson in_set_dropD in_set_takeD sum_list_nonneg)
  ultimately show ?thesis by simp
qed

lemma cumsum_mono:
  assumes "\<forall>x \<in> set xs. (0::real) \<le> x" "i \<le> j" "j < length xs"
  shows "cumsum xs ! i \<le> cumsum xs ! j"
  using assms sum_list_take_mono [of xs "Suc i" "Suc j"] by (simp add: nth_cumsum)

lemma pro_forma_Inr:
  assumes "pro_forma a g = Inr pf"
  shows "1 \<le> years g \<and> (years g = 1 \<or> growth_sites g \<noteq> -1)
     \<and> (\<exists>s v. monthly_model a = Inr s
           \<and> value_per_recovered_lb (recovered s) (gross_value s) = Inr v
           \<and> pf = frame_of (map (year_row (R s) (capex_per_site a) g (seed a v))
                                [0..<nat (years g)]))"
proof -
  obtain s v where s: "monthly_model a = Inr s"
    and v: "value_per_recovered_lb (recovered s) (gross_value s) = Inr v"
    and r: "pro_forma a g =
         (if years g \<le> 0 then Inl KeyError
          else if 1 < years g \<and> growth_sites g = -1 then Inl ZeroDivisionError
          else Inr (frame_of (map (year_row (R s) (capex_per_site a) g (seed a v))
                                 [0..<nat (years g)])))"
    using pro_forma_result [of a g] by blast
  have y: "\<not> years g \<le> 0" using assms r by auto
  have z: "\<not> (1 < years g \<and> growth_sites g = -1)" using assms r y by auto
  have "pf = frame_of (map (year_row (R s) (capex_per_site a) g (seed a v)) [0..<nat (years g)])"
    using assms r y z by simp
  then show ?thesis using s v y z by auto
qed

lemma pro_forma_returns:
  assumes "1 \<le> years g" "growth_sites g \<noteq> -1"
  shows "\<exists>pf. pro_forma a g = Inr pf \<and> length (table pf) = nat (years g)"
proof -
  obtain s :: snapshot and v where
    "pro_forma a g =
         (if years g \<le> 0 then Inl KeyError
          else if 1 < years g \<and> growth_sites g = -1 then Inl ZeroDivisionError
          else Inr (frame_of (map (year_row (R s) (capex_per_site a) g (seed a v))
                                 [0..<nat (years g)])))"
    using pro_forma_result [of a g] by blast
  then show ?thesis using assms by (simp add: frame_of_def)
qed

lemma table_frame_of: "table (frame_of rs) = rs"
  by (simp add: frame_of_def)

lemma default_run:
  assumes "pro_forma default_inputs default_pro_forma_inputs = Inr pf"
  shows "table pf = map (year_row 0.9 120000 default_pro_forma_inputs
                       (seed default_inputs (645247.872 / 72000))) [0..<5]"
proof -
  obtain s v where s: "monthly_model default_inputs = Inr s"
    and v: "value_per_recovered_lb (recovered s) (gross_value s) = Inr v"
    and pf: "pf = frame_of (map (year_row (R s) (capex_per_site default_inputs)
                 default_pro_forma_inputs (seed default_inputs v))
                 [0..<nat (years default_pro_forma_inputs)])"
    using pro_forma_Inr [OF assms] by blast
  have r: "R s = 0.9"
    using monthly_model_fields [of default_inputs] s
    by (auto simp add: default_inputs_def clamp_def)
  have veq: "v = 645247.872 / 72000"
    using v default_gross [OF s] by (simp add: value_per_recovered_lb_Inr)
  have c: "capex_per_site default_inputs = 120000"
    and y: "nat (years default_pro_forma_inputs) = 5"
    by (simp_all add: default_inputs_def default_pro_forma_inputs_def)
  show ?thesis
    unfolding pf table_frame_of r veq c y ..
qed

lemma less_five: "(i::nat) < 5 \<longleftrightarrow> i = 0 \<or> i = 1 \<or> i = 2 \<or> i = 3 \<or> i = 4"
  by arith

lemma default_run_nonneg:
  assumes "pro_forma default_inputs default_pro_forma_inputs = Inr pf"
  shows "\<forall>i < length (table pf). 0 \<le> Net_proceeds (table pf ! i)
       \<and> 0 \<le> Workforce_reinvest (table pf ! i)"
proof -
  have "\<And>i. i < 5 \<Longrightarrow>
      0 \<le> Net_proceeds (year_row 0.9 120000 default_pro_forma_inputs
                       (seed default_inputs (645247.872 / 72000)) i)
    \<and> 0 \<le> Workforce_reinvest (year_row 0.9 120000 default_pro_forma_inputs
                       (seed default_inputs (645247.872 / 72000)) i)"
    unfolding less_five
    by (auto simp add: year_row_def seed_def Let_def default_inputs_def
        default_pro_forma_inputs_def power_divide)
  then show ?thesis
    unfolding default_run [OF assms] by simp
qed

text \<open>
  C5. In every pro forma the script produces, the row of year \<open>i + 1\<close> is computed from
  the carried variables after \<open>i\<close> multiplications by \<open>(1 + growth)\<close>: \<open>sites_y\<close>,
  \<open>lbs_site_y\<close>, \<open>vpr\<close> and \<open>op_cost_site_y\<close> are each multiplied once per year after
  the first, before that year's row, so the row of year 1 has the seed values
  (\<open>sites\<close>, \<open>lbs_per_site_month\<close>, \<open>value_per_recovered_lb\<close>, twelve times
  \<open>op_cost_site_month\<close>). In every row the recovered pounds are the incoming pounds times
  the same \<open>R\<close>, the clamped \<open>recovery_rate\<close>, which does not grow.
\<close>

theorem growth_compounds_before_row:
  assumes "pro_forma a g = Inr pf"
  shows "\<exists>s v. monthly_model a = Inr s
     \<and> R s = clamp (recovery_rate a) 0 1
     \<and> value_per_recovered_lb (recovered s) (gross_value s) = Inr v
     \<and> length (table pf) = nat (years g)
     \<and> (\<forall>i < length (table pf).
           Year (table pf ! i) = int i + 1
         \<and> Sites (table pf ! i) = sites a * (1 + growth_sites g) ^ i
         \<and> Annual_incoming_lbs (table pf ! i) =
             Sites (table pf ! i) * (lbs_per_site_month a * (1 + growth_lbs g) ^ i) * 12
         \<and> Annual_recovered_lbs (table pf ! i) = Annual_incoming_lbs (table pf ! i) * R s
         \<and> Gross_value (table pf ! i) =
             Annual_recovered_lbs (table pf ! i) * (v * (1 + growth_price g) ^ i)
         \<and> Operating_cost (table pf ! i) =
             Sites (table pf ! i) * (op_cost_site_month a * 12 * (1 + growth_cost g) ^ i)
         \<and> Net_proceeds (table pf ! i) = Gross_value (table pf ! i) - Operating_cost (table pf ! i))"
proof -
  obtain s v where s: "monthly_model a = Inr s"
    and v: "value_per_recovered_lb (recovered s) (gross_value s) = Inr v"
    and pf: "pf = frame_of (map (year_row (R s) (capex_per_site a) g (seed a v))
                                [0..<nat (years g)])"
    using pro_forma_Inr [OF assms] by blast
  have r: "R s = clamp (recovery_rate a) 0 1"
    using monthly_model_fields [of a] s by auto
  have len: "length (table pf) = nat (years g)"
    by (simp add: pf table_frame_of)
  have rows: "\<forall>i < length (table pf).
           Year (table pf ! i) = int i + 1
         \<and> Sites (table pf ! i) = sites a * (1 + growth_sites g) ^ i
         \<and> Annual_incoming_lbs (table pf ! i) =
             Sites (table pf ! i) * (lbs_per_site_month a * (1 + growth_lbs g) ^ i) * 12
         \<and> Annual_recovered_lbs (table pf ! i) = Annual_incoming_lbs (table pf ! i) * R s
         \<and> Gross_value (table pf ! i) =
             Annual_recovered_lbs (table pf ! i) * (v * (1 + growth_price g) ^ i)
         \<and> Operating_cost (table pf ! i) =
             Sites (table pf ! i) * (op_cost_site_month a * 12 * (1 + growth_cost g) ^ i)
         \<and> Net_proceeds (table pf ! i) = Gross_value (table pf ! i) - Operating_cost (table pf ! i)"
    by (simp add: pf table_frame_of year_row_def seed_def Let_def)
  show ?thesis using s r v len rows by blast
qed

theorem growth_compounds_before_row_witness:
  "\<exists>pf. pro_forma default_inputs default_pro_forma_inputs = Inr pf
     \<and> length (table pf) = 5
     \<and> Year (table pf ! 0) = 1 \<and> Sites (table pf ! 0) = 1
     \<and> Annual_incoming_lbs (table pf ! 0) = 960000
     \<and> Annual_recovered_lbs (table pf ! 0) = 864000
     \<and> Year (table pf ! 1) = 2 \<and> Sites (table pf ! 1) = 1.25
     \<and> Annual_incoming_lbs (table pf ! 1) = 1260000
     \<and> Annual_recovered_lbs (table pf ! 1) = 1134000"
proof -
  obtain pf where pf: "pro_forma default_inputs default_pro_forma_inputs = Inr pf"
    using pro_forma_returns [of default_pro_forma_inputs default_inputs]
    by (auto simp add: default_pro_forma_inputs_def)
  obtain s :: snapshot and v :: real
    where r: "R s = clamp (recovery_rate default_inputs) 0 1"
    and len: "length (table pf) = nat (years default_pro_forma_inputs)"
    and rows: "\<forall>i < length (table pf).
           Year (table pf ! i) = int i + 1
         \<and> Sites (table pf ! i) = sites default_inputs * (1 + growth_sites default_pro_forma_inputs) ^ i
         \<and> Annual_incoming_lbs (table pf ! i) =
             Sites (table pf ! i) * (lbs_per_site_month default_inputs * (1 + growth_lbs default_pro_forma_inputs) ^ i) * 12
         \<and> Annual_recovered_lbs (table pf ! i) = Annual_incoming_lbs (table pf ! i) * R s"
    using growth_compounds_before_row [OF pf] by blast
  have l5: "length (table pf) = 5" using len by (simp add: default_pro_forma_inputs_def)
  have r9: "R s = 0.9" using r by (simp add: default_inputs_def clamp_def)
  have "0 < length (table pf)" "1 < length (table pf)" using l5 by simp_all
  then show ?thesis
    using pf l5 r9 rows
    by (auto simp add: default_inputs_def default_pro_forma_inputs_def)
qed

text \<open>
  C6. In every pro forma the script produces, the capex of year 1 is
  \<open>sites_y * capex_per_site\<close> floored at 0, which is \<open>sites_y * capex_per_site\<close> itself for
  inputs within their documented bounds (\<open>sites \<ge> 0\<close>, \<open>capex_per_site \<ge> 0\<close>); the capex
  of every later year is \<open>(sites_y - sites_y / (1 + growth_sites)) * capex_per_site\<close>
  floored at 0. With \<open>growth_sites = 0\<close> every row has the same \<open>Sites\<close>, and the capex of
  every year after the first is 0.
\<close>

theorem capex_new_sites:
  assumes "pro_forma a g = Inr pf"
  shows "Sites (table pf ! 0) = sites a
     \<and> CapEx_new_sites (table pf ! 0) = max (Sites (table pf ! 0) * capex_per_site a) 0
     \<and> (0 \<le> sites a \<and> 0 \<le> capex_per_site a \<longrightarrow>
          CapEx_new_sites (table pf ! 0) = Sites (table pf ! 0) * capex_per_site a)
     \<and> (\<forall>i. 0 < i \<and> i < length (table pf) \<longrightarrow>
          growth_sites g \<noteq> -1
        \<and> CapEx_new_sites (table pf ! i) =
            max ((Sites (table pf ! i) - Sites (table pf ! i) / (1 + growth_sites g))
                 * capex_per_site a) 0)
     \<and> (growth_sites g = 0 \<longrightarrow>
          (\<forall>i < length (table pf). Sites (table pf ! i) = sites a)
        \<and> (\<forall>i. 0 < i \<and> i < length (table pf) \<longrightarrow> CapEx_new_sites (table pf ! i) = 0))"
proof -
  obtain s :: snapshot and v where y: "1 \<le> years g" and z: "years g = 1 \<or> growth_sites g \<noteq> -1"
    and pf: "pf = frame_of (map (year_row (R s) (capex_per_site a) g (seed a v))
                                [0..<nat (years g)])"
    using pro_forma_Inr [OF assms] by blast
  have len: "length (table pf) = nat (years g)" by (simp add: pf table_frame_of)
  have nth: "\<And>i. i < nat (years g) \<Longrightarrow>
      table pf ! i = year_row (R s) (capex_per_site a) g (seed a v) i"
    by (simp add: pf table_frame_of)
  have pos: "0 < nat (years g)" using y by simp
  have s0: "Sites (table pf ! 0) = sites a"
    using nth [OF pos] by (simp add: year_row_def seed_def Let_def)
  have c0: "CapEx_new_sites (table pf ! 0) = max (Sites (table pf ! 0) * capex_per_site a) 0"
    using nth [OF pos] by (simp add: year_row_def seed_def Let_def)
  have c0': "0 \<le> sites a \<and> 0 \<le> capex_per_site a \<longrightarrow>
          CapEx_new_sites (table pf ! 0) = Sites (table pf ! 0) * capex_per_site a"
    using c0 s0 by simp
  have later: "\<forall>i. 0 < i \<and> i < length (table pf) \<longrightarrow>
          growth_sites g \<noteq> -1
        \<and> CapEx_new_sites (table pf ! i) =
            max ((Sites (table pf ! i) - Sites (table pf ! i) / (1 + growth_sites g))
                 * capex_per_site a) 0"
  proof (intro allI impI)
    fix i assume i: "0 < i \<and> i < length (table pf)"
    then have "1 < years g" using len by linarith
    then have gs: "growth_sites g \<noteq> -1" using z by auto
    have "table pf ! i = year_row (R s) (capex_per_site a) g (seed a v) i"
      using i len nth by simp
    then show "growth_sites g \<noteq> -1
        \<and> CapEx_new_sites (table pf ! i) =
            max ((Sites (table pf ! i) - Sites (table pf ! i) / (1 + growth_sites g))
                 * capex_per_site a) 0"
      using gs i by (simp add: year_row_def Let_def)
  qed
  have flat: "growth_sites g = 0 \<longrightarrow>
          (\<forall>i < length (table pf). Sites (table pf ! i) = sites a)
        \<and> (\<forall>i. 0 < i \<and> i < length (table pf) \<longrightarrow> CapEx_new_sites (table pf ! i) = 0)"
    using len nth by (simp add: year_row_def seed_def Let_def)
  show ?thesis using s0 c0 c0' later flat by blast
qed

theorem capex_new_sites_witness:
  "(\<exists>pf. pro_forma default_inputs default_pro_forma_inputs = Inr pf
      \<and> CapEx_new_sites (table pf ! 0) = Sites (table pf ! 0) * 120000
      \<and> CapEx_new_sites (table pf ! 1) =
          max ((Sites (table pf ! 1) - Sites (table pf ! 1) / 1.25) * 120000) 0)
   \<and> (\<exists>pf. pro_forma default_inputs (default_pro_forma_inputs\<lparr>growth_sites := 0\<rparr>) = Inr pf
      \<and> Sites (table pf ! 0) = 1 \<and> Sites (table pf ! 4) = 1
      \<and> CapEx_new_sites (table pf ! 0) = 120000
      \<and> CapEx_new_sites (table pf ! 4) = 0)"
proof
  obtain pf where pf: "pro_forma default_inputs default_pro_forma_inputs = Inr pf"
    and len: "length (table pf) = 5"
    using pro_forma_returns [of default_pro_forma_inputs default_inputs]
    by (auto simp add: default_pro_forma_inputs_def)
  have "0 \<le> sites default_inputs \<and> 0 \<le> capex_per_site default_inputs"
    "0 < (1::nat) \<and> 1 < length (table pf)"
    using len by (simp_all add: default_inputs_def)
  then show "\<exists>pf. pro_forma default_inputs default_pro_forma_inputs = Inr pf
      \<and> CapEx_new_sites (table pf ! 0) = Sites (table pf ! 0) * 120000
      \<and> CapEx_new_sites (table pf ! 1) =
          max ((Sites (table pf ! 1) - Sites (table pf ! 1) / 1.25) * 120000) 0"
    using pf capex_new_sites [OF pf]
    by (auto simp add: default_inputs_def default_pro_forma_inputs_def)
next
  let ?g = "default_pro_forma_inputs\<lparr>growth_sites := 0\<rparr>"
  obtain pf where pf: "pro_forma default_inputs ?g = Inr pf"
    and len: "length (table pf) = 5"
    using pro_forma_returns [of ?g default_inputs]
    by (auto simp add: default_pro_forma_inputs_def)
  have "growth_sites ?g = 0" "0 \<le> sites default_inputs \<and> 0 \<le> capex_per_site default_inputs"
    "0 < (4::nat) \<and> 4 < length (table pf)" "0 < length (table pf)"
    using len by (simp_all add: default_inputs_def)
  then show "\<exists>pf. pro_forma default_inputs ?g = Inr pf
      \<and> Sites (table pf ! 0) = 1 \<and> Sites (table pf ! 4) = 1
      \<and> CapEx_new_sites (table pf ! 0) = 120000
      \<and> CapEx_new_sites (table pf ! 4) = 0"
    using pf capex_new_sites [OF pf]
    by (auto simp add: default_inputs_def)
qed

text \<open>
  C8. In every pro forma the script produces, each entry of the two cumulative columns is
  the sum of the yearly column (\<open>Net_proceeds\<close>, respectively \<open>Workforce_reinvest\<close>) over
  the rows up to and including that row; and a cumulative column never decreases from one
  row to a later one when every yearly value of its column is non-negative.
\<close>

theorem cumulative_columns:
  assumes "pro_forma a g = Inr pf"
  shows "length (Cumulative_net_proceeds pf) = length (table pf)
     \<and> length (Cumulative_workforce_reinvest pf) = length (table pf)
     \<and> (\<forall>i < length (table pf).
          Cumulative_net_proceeds pf ! i = sum_list (map Net_proceeds (take (Suc i) (table pf)))
        \<and> Cumulative_workforce_reinvest pf ! i =
            sum_list (map Workforce_reinvest (take (Suc i) (table pf))))
     \<and> ((\<forall>i < length (table pf). 0 \<le> Net_proceeds (table pf ! i)) \<longrightarrow>
          (\<forall>i j. i \<le> j \<and> j < length (table pf) \<longrightarrow>
             Cumulative_net_proceeds pf ! i \<le> Cumulative_net_proceeds pf ! j))
     \<and> ((\<forall>i < length (table pf). 0 \<le> Workforce_reinvest (table pf ! i)) \<longrightarrow>
          (\<forall>i j. i \<le> j \<and> j < length (table pf) \<longrightarrow>
             Cumulative_workforce_reinvest pf ! i \<le> Cumulative_workforce_reinvest pf ! j))"
proof -
  obtain rs where pf: "pf = frame_of rs"
    using pro_forma_Inr [OF assms] by blast
  have t: "table pf = rs"
    and cn: "Cumulative_net_proceeds pf = cumsum (map Net_proceeds rs)"
    and cw: "Cumulative_workforce_reinvest pf = cumsum (map Workforce_reinvest rs)"
    by (simp_all add: pf frame_of_def)
  have nonneg: "\<And>f. (\<forall>i < length rs. 0 \<le> f (rs ! i)) \<Longrightarrow> \<forall>x \<in> set (map f rs). (0::real) \<le> x"
    by (auto simp add: in_set_conv_nth)
  have mono: "\<And>f. (\<forall>i < length rs. 0 \<le> f (rs ! i)) \<longrightarrow>
      (\<forall>i j. i \<le> j \<and> j < length rs \<longrightarrow> cumsum (map f rs) ! i \<le> cumsum (map f rs) ! j)"
    using nonneg cumsum_mono by (metis length_map)
  show ?thesis
    unfolding t cn cw using mono [of Net_proceeds] mono [of Workforce_reinvest]
    by (simp add: length_cumsum nth_cumsum take_map)
qed

theorem cumulative_columns_witness:
  "\<exists>pf. pro_forma default_inputs default_pro_forma_inputs = Inr pf
     \<and> length (Cumulative_net_proceeds pf) = 5
     \<and> Cumulative_net_proceeds pf ! 0 = Net_proceeds (table pf ! 0)
     \<and> Cumulative_net_proceeds pf ! 1 = Net_proceeds (table pf ! 0) + Net_proceeds (table pf ! 1)
     \<and> Cumulative_net_proceeds pf ! 1 \<le> Cumulative_net_proceeds pf ! 4
     \<and> Cumulative_workforce_reinvest pf ! 0 \<le> Cumulative_workforce_reinvest pf ! 3"
proof -
  obtain pf where pf: "pro_forma default_inputs default_pro_forma_inputs = Inr pf"
    and len: "length (table pf) = 5"
    using pro_forma_returns [of default_pro_forma_inputs default_inputs]
    by (auto simp add: default_pro_forma_inputs_def)
  note c = cumulative_columns [OF pf]
  have nn: "\<forall>i < length (table pf). 0 \<le> Net_proceeds (table pf ! i)"
    and nw: "\<forall>i < length (table pf). 0 \<le> Workforce_reinvest (table pf ! i)"
    using default_run_nonneg [OF pf] by simp_all
  have l: "length (Cumulative_net_proceeds pf) = 5" using c len by simp
  have t1: "take (Suc 0) (table pf) = [table pf ! 0]"
    and t2: "take (Suc 1) (table pf) = [table pf ! 0, table pf ! 1]"
    using len by (simp_all add: take_Suc_conv_app_nth)
  have c0: "Cumulative_net_proceeds pf ! 0 = Net_proceeds (table pf ! 0)"
    using c len t1 by simp
  have c1: "Cumulative_net_proceeds pf ! 1 = Net_proceeds (table pf ! 0) + Net_proceeds (table pf ! 1)"
    using c len t2 by simp
  have mn: "\<forall>i j. i \<le> j \<and> j < length (table pf) \<longrightarrow>
      Cumulative_net_proceeds pf ! i \<le> Cumulative_net_proceeds pf ! j"
    using c nn by blast
  have mw: "\<forall>i j. i \<le> j \<and> j < length (table pf) \<longrightarrow>
      Cumulative_workforce_reinvest pf ! i \<le> Cumulative_workforce_reinvest pf ! j"
    using c nw by blast
  have m1: "Cumulative_net_proceeds pf ! 1 \<le> Cumulative_net_proceeds pf ! 4"
    using mn [rule_format, of 1 4] len by simp
  have m2: "Cumulative_workforce_reinvest pf ! 0 \<le> Cumulative_workforce_reinvest pf ! 3"
    using mw [rule_format, of 0 3] len by simp
  show ?thesis using pf l c0 c1 m1 m2 by blast
qed

text \<open>
  C10. The pro forma raises \<open>ZeroDivisionError\<close> exactly when \<open>years > 1\<close> and
  \<open>growth_sites = -1\<close>: the division \<open>sites_y / (1.0 + growth_sites)\<close> of line 342 is
  evaluated in every year after the first. With \<open>years \<ge> 1\<close> and \<open>growth_sites \<noteq> -1\<close>
  it returns a frame of \<open>years\<close> rows.
\<close>

theorem pro_forma_division_by_zero:
  "(1 < years g \<and> growth_sites g = -1 \<longrightarrow> pro_forma a g = Inl ZeroDivisionError)
   \<and> (pro_forma a g = Inl ZeroDivisionError \<longrightarrow> 1 < years g \<and> growth_sites g = -1)
   \<and> (1 \<le> years g \<and> growth_sites g \<noteq> -1 \<longrightarrow>
        (\<exists>pf. pro_forma a g = Inr pf \<and> length (table pf) = nat (years g)))"
proof -
  obtain s :: snapshot and v where r:
    "pro_forma a g =
         (if years g \<le> 0 then Inl KeyError
          else if 1 < years g \<and> growth_sites g = -1 then Inl ZeroDivisionError
          else Inr (frame_of (map (year_row (R s) (capex_per_site a) g (seed a v))
                                 [0..<nat (years g)])))"
    using pro_forma_result [of a g] by blast
  have 1: "1 < years g \<and> growth_sites g = -1 \<longrightarrow> pro_forma a g = Inl ZeroDivisionError"
    using r by simp
  have 2: "pro_forma a g = Inl ZeroDivisionError \<longrightarrow> 1 < years g \<and> growth_sites g = -1"
    using r by (simp split: if_splits)
  have 3: "1 \<le> years g \<and> growth_sites g \<noteq> -1 \<longrightarrow>
        (\<exists>pf. pro_forma a g = Inr pf \<and> length (table pf) = nat (years g))"
    using pro_forma_returns by blast
  show ?thesis using 1 2 3 by blast
qed

theorem pro_forma_division_by_zero_witness:
  "pro_forma default_inputs (default_pro_forma_inputs\<lparr>growth_sites := -1\<rparr>)
     = Inl ZeroDivisionError
   \<and> (\<exists>pf. pro_forma default_inputs default_pro_forma_inputs = Inr pf
         \<and> length (table pf) = 5)"
  using pro_forma_division_by_zero [of "default_pro_forma_inputs\<lparr>growth_sites := -1\<rparr>" default_inputs]
    pro_forma_division_by_zero [of default_pro_forma_inputs default_inputs]
  by (simp add: default_pro_forma_inputs_def)


section \<open>The monthly model on floats with overflow\<close>

lemma fl_le_zero_cases:
  "fl_le x (Finite 0) \<or> x = NaN \<or> x = PosInf \<or> (\<exists>r. x = Finite r \<and> 0 < r)"
  by (cases x) auto

lemma payback_fl_total: "\<exists>p. payback_fl net capex = Inr p"
proof (cases "fl_le net (Finite 0)")
  case True
  then show ?thesis by (simp add: payback_fl_def)
next
  case False
  then show ?thesis
    using fl_le_zero_cases [of net]
    by (cases capex) (auto simp add: payback_fl_def)
qed

lemma monthly_model_fl_fields:
  "\<exists>s. monthly_model_fl a = Inr s
     \<and> W_fl s = fl_mul (Finite (lbs_per_site_month a)) (Finite (sites a))
     \<and> R_fl s = Finite (clamp (recovery_rate a) 0 1)
     \<and> Y_fl s = Finite (clamp (yield_rate a) 0 1)
     \<and> D_fl s = Finite (clamp (downtime_rate a) 0 1)
     \<and> S_fl s = Finite (clamp (scrap_rate a) 0 1)
     \<and> recovered_fl s = fl_mul (W_fl s) (R_fl s)
     \<and> usable_fl s = fl_mul (recovered_fl s) (fl_sub (Finite 1) (S_fl s))
     \<and> finished_fl s = fl_mul (fl_mul (usable_fl s) (Y_fl s)) (fl_sub (Finite 1) (D_fl s))
     \<and> sold_lbs_fl s = fl_mul (finished_fl s) (Finite (clamp (sell_share a) 0 1))
     \<and> internal_lbs_fl s =
         fl_mul (finished_fl s) (fl_sub (Finite 1) (Finite (clamp (sell_share a) 0 1)))
     \<and> sell_rev_fl s = fl_mul (sold_lbs_fl s) (Finite (sell_price_lb a))
     \<and> internal_val_fl s = fl_mul (internal_lbs_fl s) (Finite (internal_value_lb a))
     \<and> disp_avoid_fl s = fl_mul (recovered_fl s) (Finite (disposal_avoid_lb a))
     \<and> carbon_val_fl s = fl_mul (recovered_fl s) (Finite (carbon_value_lb a))
     \<and> gross_value_fl s =
         fl_add (fl_add (fl_add (sell_rev_fl s) (internal_val_fl s)) (disp_avoid_fl s))
           (carbon_val_fl s)
     \<and> op_cost_fl s = fl_mul (Finite (op_cost_site_month a)) (Finite (sites a))
     \<and> net_profit_fl s = fl_sub (gross_value_fl s) (op_cost_fl s)
     \<and> capex_total_fl s = fl_mul (Finite (capex_per_site a)) (Finite (sites a))
     \<and> payback_fl (net_profit_fl s) (capex_total_fl s) = Inr (payback_mo_fl s)"
proof -
  define W where "W = fl_mul (Finite (lbs_per_site_month a)) (Finite (sites a))"
  define rec where "rec = fl_mul W (Finite (clamp (recovery_rate a) 0 1))"
  define fin where "fin = fl_mul (fl_mul (fl_mul rec (fl_sub (Finite 1) (Finite (clamp (scrap_rate a) 0 1))))
      (Finite (clamp (yield_rate a) 0 1))) (fl_sub (Finite 1) (Finite (clamp (downtime_rate a) 0 1)))"
  define gross where "gross = fl_add (fl_add (fl_add
       (fl_mul (fl_mul fin (Finite (clamp (sell_share a) 0 1))) (Finite (sell_price_lb a)))
       (fl_mul (fl_mul fin (fl_sub (Finite 1) (Finite (clamp (sell_share a) 0 1))))
          (Finite (internal_value_lb a))))
       (fl_mul rec (Finite (disposal_avoid_lb a))))
       (fl_mul rec (Finite (carbon_value_lb a)))"
  obtain p where p: "payback_fl (fl_sub gross (fl_mul (Finite (op_cost_site_month a)) (Finite (sites a))))
      (fl_mul (Finite (capex_per_site a)) (Finite (sites a))) = Inr p"
    using payback_fl_total by blast
  show ?thesis
    using p unfolding gross_def fin_def rec_def W_def
    by (simp add: monthly_model_fl_def Let_def)
qed

lemma max_float_pos: "0 < max_float"
  by (simp add: max_float_def)

lemma fl_in_range: "- max_float \<le> x \<Longrightarrow> x \<le> max_float \<Longrightarrow> fl x = Finite x"
  by (simp add: fl_def)

lemma fl_nonneg_below: "0 \<le> x \<Longrightarrow> x \<le> y \<Longrightarrow> y \<le> max_float \<Longrightarrow> fl x = Finite x"
  using max_float_pos by (simp add: fl_def)

lemma max_float_ge_one: "1 \<le> max_float"
  by (simp add: max_float_def)

text \<open>
  C1, as the spec states it, holds for every input with rates in \<open>[0,1]\<close>,
  \<open>lbs_per_site_month \<ge> 0\<close> and \<open>sites \<ge> 0\<close>. With \<open>sites = 1e200\<close>,
  \<open>lbs_per_site_month = 1e200\<close> and \<open>recovery_rate = 0\<close> the product \<open>W\<close> overflows to
  infinity, \<open>recovered = inf * 0\<close> is NaN, and the chain of comparisons is false.
\<close>

theorem material_flow_chain_counterexample:
  "0 \<le> recovery_rate overflowing_flow_inputs \<and> recovery_rate overflowing_flow_inputs \<le> 1
   \<and> 0 \<le> lbs_per_site_month overflowing_flow_inputs \<and> 0 \<le> sites overflowing_flow_inputs
   \<and> map_sum id W_fl (monthly_model_fl overflowing_flow_inputs) = Inr PosInf
   \<and> map_sum id recovered_fl (monthly_model_fl overflowing_flow_inputs) = Inr NaN
   \<and> map_sum id flow_chain (monthly_model_fl overflowing_flow_inputs) = Inr False"
proof -
  obtain s where s: "monthly_model_fl overflowing_flow_inputs = Inr s"
    and w: "W_fl s = fl_mul (Finite (lbs_per_site_month overflowing_flow_inputs))
                       (Finite (sites overflowing_flow_inputs))"
    and r: "R_fl s = Finite (clamp (recovery_rate overflowing_flow_inputs) 0 1)"
    and rec: "recovered_fl s = fl_mul (W_fl s) (R_fl s)"
    using monthly_model_fl_fields [of overflowing_flow_inputs] by blast
  have w': "W_fl s = PosInf"
    using w by (simp add: overflowing_flow_inputs_def fl_def max_float_def)
  have r': "R_fl s = Finite 0"
    using r by (simp add: overflowing_flow_inputs_def clamp_def)
  have rec': "recovered_fl s = NaN" using rec w' r' by simp
  have "\<not> flow_chain s" using rec' by (simp add: flow_chain_def)
  then show ?thesis
    using s w' rec' by (simp add: overflowing_flow_inputs_def default_inputs_def)
qed

text \<open>
  C1, amended. For inputs whose four process rates lie in \<open>[0,1]\<close>, with
  \<open>lbs_per_site_month \<ge> 0\<close>, \<open>sites \<ge> 0\<close> and \<open>lbs_per_site_month * sites\<close> within the
  double range, the monthly calculations finish, every stage is a finite number, the
  one before it times the rate the caller gave, and
  \<open>0 \<le> finished \<le> usable \<le> recovered \<le> W\<close>, \<open>W\<close> being the incoming pounds.
\<close>

theorem material_flow_chain_in_range:
  assumes "0 \<le> recovery_rate a" "recovery_rate a \<le> 1"
    and "0 \<le> yield_rate a" "yield_rate a \<le> 1"
    and "0 \<le> downtime_rate a" "downtime_rate a \<le> 1"
    and "0 \<le> scrap_rate a" "scrap_rate a \<le> 1"
    and "0 \<le> lbs_per_site_month a" "0 \<le> sites a"
    and "lbs_per_site_month a * sites a \<le> max_float"
  shows "\<exists>s. monthly_model_fl a = Inr s
           \<and> W_fl s = Finite (lbs_per_site_month a * sites a)
           \<and> recovered_fl s = Finite (lbs_per_site_month a * sites a * recovery_rate a)
           \<and> usable_fl s =
               Finite (lbs_per_site_month a * sites a * recovery_rate a * (1 - scrap_rate a))
           \<and> finished_fl s =
               Finite (lbs_per_site_month a * sites a * recovery_rate a * (1 - scrap_rate a)
                       * yield_rate a * (1 - downtime_rate a))
           \<and> flow_chain s"
proof -
  obtain s where s: "monthly_model_fl a = Inr s"
    and w: "W_fl s = fl_mul (Finite (lbs_per_site_month a)) (Finite (sites a))"
    and r: "R_fl s = Finite (clamp (recovery_rate a) 0 1)"
    and y: "Y_fl s = Finite (clamp (yield_rate a) 0 1)"
    and d: "D_fl s = Finite (clamp (downtime_rate a) 0 1)"
    and sc: "S_fl s = Finite (clamp (scrap_rate a) 0 1)"
    and rec: "recovered_fl s = fl_mul (W_fl s) (R_fl s)"
    and us: "usable_fl s = fl_mul (recovered_fl s) (fl_sub (Finite 1) (S_fl s))"
    and fin: "finished_fl s = fl_mul (fl_mul (usable_fl s) (Y_fl s)) (fl_sub (Finite 1) (D_fl s))"
    using monthly_model_fl_fields [of a] by blast
  let ?w = "lbs_per_site_month a * sites a"
  let ?r = "?w * recovery_rate a"
  let ?u = "?r * (1 - scrap_rate a)"
  let ?uy = "?u * yield_rate a"
  let ?f = "?uy * (1 - downtime_rate a)"
  have raw: "R_fl s = Finite (recovery_rate a)" "Y_fl s = Finite (yield_rate a)"
    "D_fl s = Finite (downtime_rate a)" "S_fl s = Finite (scrap_rate a)"
    using r y d sc assms by (simp_all add: clamp_unit_id)
  have one: "\<And>x. 0 \<le> x \<Longrightarrow> x \<le> 1 \<Longrightarrow> fl_sub (Finite 1) (Finite x) = Finite (1 - x)"
    using max_float_ge_one by (simp add: fl_sub_def fl_def)
  have w0: "0 \<le> ?w" using assms by simp
  have r0: "0 \<le> ?r" and rw: "?r \<le> ?w" using w0 assms by (simp_all add: mult_left_le)
  have u0: "0 \<le> ?u" and ur: "?u \<le> ?r" using r0 assms by (simp_all add: mult_left_le)
  have uy0: "0 \<le> ?uy" and uyu: "?uy \<le> ?u" using u0 assms by (simp_all add: mult_left_le)
  have f0: "0 \<le> ?f" and fuy: "?f \<le> ?uy" using uy0 assms by (simp_all add: mult_left_le)
  have wv: "W_fl s = Finite ?w"
    using w w0 assms(11) by (simp add: fl_nonneg_below [of ?w ?w])
  have rv: "recovered_fl s = Finite ?r"
    using rec wv raw r0 rw assms(11) by (simp add: fl_nonneg_below [of ?r ?w])
  have uv: "usable_fl s = Finite ?u"
    using us rv raw one [of "scrap_rate a"] assms u0 ur rw
    by (simp add: fl_nonneg_below [of ?u ?w])
  have uyv: "fl_mul (usable_fl s) (Y_fl s) = Finite ?uy"
    using uv raw uy0 uyu ur rw assms(11) by (simp add: fl_nonneg_below [of ?uy ?w])
  have fv: "finished_fl s = Finite ?f"
    using fin uyv raw one [of "downtime_rate a"] assms f0 fuy uyu ur rw
    by (simp add: fl_nonneg_below [of ?f ?w])
  have "flow_chain s"
    unfolding flow_chain_def wv rv uv fv using f0 fuy uyu ur rw by simp
  then show ?thesis using s wv rv uv fv by blast
qed

theorem material_flow_chain_in_range_witness:
  "\<exists>s. monthly_model_fl default_inputs = Inr s
     \<and> W_fl s = Finite 80000 \<and> recovered_fl s = Finite 72000
     \<and> usable_fl s = Finite 67680 \<and> finished_fl s = Finite 57284.352
     \<and> flow_chain s"
proof -
  have "lbs_per_site_month default_inputs * sites default_inputs \<le> max_float"
    by (simp add: default_inputs_def max_float_def)
  then show ?thesis
    using material_flow_chain_in_range [of default_inputs]
    by (simp add: default_inputs_def)
qed

lemma fl_small: "\<bar>x\<bar> \<le> 10 ^ 9 \<Longrightarrow> fl x = Finite x"
proof -
  have "(10::real) ^ 9 \<le> max_float" by (simp add: max_float_def)
  then show "\<bar>x\<bar> \<le> 10 ^ 9 \<Longrightarrow> fl x = Finite x"
    by (intro fl_in_range) linarith+
qed

lemma fl_sub_le_zero:
  assumes "fl_le g oc" "fl_sub g oc \<noteq> NaN"
  shows "fl_le (fl_sub g oc) (Finite 0)"
proof (cases g)
  case (Finite x)
  then show ?thesis
    using assms max_float_pos by (cases oc) (auto simp add: fl_sub_def fl_def)
next
  case PosInf
  then show ?thesis using assms by (cases oc) (auto simp add: fl_sub_def)
next
  case NegInf
  then show ?thesis using assms by (cases oc) (auto simp add: fl_sub_def)
next
  case NaN
  then show ?thesis using assms by simp
qed

lemma fl_sub_Finite_not_NaN: "fl_sub (Finite g) (Finite oc) \<noteq> NaN"
  by (simp add: fl_sub_def fl_def)

lemma fl_div_NaN: "fl_div capex NaN = Inr NaN"
  by simp

lemma fl_lt_not_le_zero: "fl_lt (Finite 0) x \<Longrightarrow> \<not> fl_le x (Finite 0)"
  by (cases x) auto

lemma default_fl_values:
  assumes "\<bar>x\<bar> \<le> 10 ^ 6"
    and "monthly_model_fl (default_inputs\<lparr>op_cost_site_month := x\<rparr>) = Inr s"
  shows "gross_value_fl s = Finite 645247.872 \<and> op_cost_fl s = Finite x
       \<and> net_profit_fl s = Finite (645247.872 - x) \<and> capex_total_fl s = Finite 120000"
proof -
  let ?a = "default_inputs\<lparr>op_cost_site_month := x\<rparr>"
  have f: "\<And>v. \<bar>v\<bar> \<le> 10 ^ 9 \<Longrightarrow> fl v = Finite v" by (rule fl_small)
  have "\<bar>645247.872 - x\<bar> \<le> 10 ^ 9" using assms(1) by (simp add: abs_le_iff)
  then have d: "fl (645247.872 - x) = Finite (645247.872 - x)" by (rule fl_small)
  have x9: "fl x = Finite x" using assms(1) by (intro fl_small) simp
  obtain s' where s': "monthly_model_fl ?a = Inr s'"
    and fields: "W_fl s' = fl_mul (Finite (lbs_per_site_month ?a)) (Finite (sites ?a))"
    "R_fl s' = Finite (clamp (recovery_rate ?a) 0 1)"
    "Y_fl s' = Finite (clamp (yield_rate ?a) 0 1)"
    "D_fl s' = Finite (clamp (downtime_rate ?a) 0 1)"
    "S_fl s' = Finite (clamp (scrap_rate ?a) 0 1)"
    "recovered_fl s' = fl_mul (W_fl s') (R_fl s')"
    "usable_fl s' = fl_mul (recovered_fl s') (fl_sub (Finite 1) (S_fl s'))"
    "finished_fl s' = fl_mul (fl_mul (usable_fl s') (Y_fl s')) (fl_sub (Finite 1) (D_fl s'))"
    "sold_lbs_fl s' = fl_mul (finished_fl s') (Finite (clamp (sell_share ?a) 0 1))"
    "internal_lbs_fl s' =
         fl_mul (finished_fl s') (fl_sub (Finite 1) (Finite (clamp (sell_share ?a) 0 1)))"
    "sell_rev_fl s' = fl_mul (sold_lbs_fl s') (Finite (sell_price_lb ?a))"
    "internal_val_fl s' = fl_mul (internal_lbs_fl s') (Finite (internal_value_lb ?a))"
    "disp_avoid_fl s' = fl_mul (recovered_fl s') (Finite (disposal_avoid_lb ?a))"
    "carbon_val_fl s' = fl_mul (recovered_fl s') (Finite (carbon_value_lb ?a))"
    "gross_value_fl s' =
         fl_add (fl_add (fl_add (sell_rev_fl s') (internal_val_fl s')) (disp_avoid_fl s'))
           (carbon_val_fl s')"
    "op_cost_fl s' = fl_mul (Finite (op_cost_site_month ?a)) (Finite (sites ?a))"
    "net_profit_fl s' = fl_sub (gross_value_fl s') (op_cost_fl s')"
    "capex_total_fl s' = fl_mul (Finite (capex_per_site ?a)) (Finite (sites ?a))"
    using monthly_model_fl_fields [of ?a] by blast
  have eq: "s' = s" using s' assms(2) by simp
  have g: "gross_value_fl s' = Finite 645247.872"
    using fields by (simp add: default_inputs_def clamp_def fl_sub_def f)
  have oc: "op_cost_fl s' = Finite x"
    using fields x9 by (simp add: default_inputs_def)
  have n: "net_profit_fl s' = Finite (645247.872 - x)"
    using fields(17) g oc d by (simp add: fl_sub_def)
  have c: "capex_total_fl s' = Finite 120000"
    using fields by (simp add: default_inputs_def f)
  show ?thesis using g oc n c eq by simp
qed

lemma overflowing_cost_values:
  assumes "monthly_model_fl overflowing_cost_inputs = Inr s"
  shows "gross_value_fl s = PosInf \<and> op_cost_fl s = PosInf
       \<and> net_profit_fl s = NaN \<and> payback_mo_fl s = NaN"
proof -
  let ?a = "overflowing_cost_inputs"
  have f: "\<And>v. \<bar>v\<bar> \<le> 10 ^ 9 \<Longrightarrow> fl v = Finite v" by (rule fl_small)
  have big: "fl (10 ^ 200 * 10 ^ 200) = PosInf" by (simp add: fl_def max_float_def)
  obtain s' where s': "monthly_model_fl ?a = Inr s'"
    and w: "W_fl s' = fl_mul (Finite (lbs_per_site_month ?a)) (Finite (sites ?a))"
    and fields: 
    "R_fl s' = Finite (clamp (recovery_rate ?a) 0 1)"
    "Y_fl s' = Finite (clamp (yield_rate ?a) 0 1)"
    "D_fl s' = Finite (clamp (downtime_rate ?a) 0 1)"
    "S_fl s' = Finite (clamp (scrap_rate ?a) 0 1)"
    "recovered_fl s' = fl_mul (W_fl s') (R_fl s')"
    "usable_fl s' = fl_mul (recovered_fl s') (fl_sub (Finite 1) (S_fl s'))"
    "finished_fl s' = fl_mul (fl_mul (usable_fl s') (Y_fl s')) (fl_sub (Finite 1) (D_fl s'))"
    "sold_lbs_fl s' = fl_mul (finished_fl s') (Finite (clamp (sell_share ?a) 0 1))"
    "internal_lbs_fl s' =
         fl_mul (finished_fl s') (fl_sub (Finite 1) (Finite (clamp (sell_share ?a) 0 1)))"
    "sell_rev_fl s' = fl_mul (sold_lbs_fl s') (Finite (sell_price_lb ?a))"
    "internal_val_fl s' = fl_mul (internal_lbs_fl s') (Finite (internal_value_lb ?a))"
    "disp_avoid_fl s' = fl_mul (recovered_fl s') (Finite (disposal_avoid_lb ?a))"
    "carbon_val_fl s' = fl_mul (recovered_fl s') (Finite (carbon_value_lb ?a))"
    "gross_value_fl s' =
         fl_add (fl_add (fl_add (sell_rev_fl s') (internal_val_fl s')) (disp_avoid_fl s'))
           (carbon_val_fl s')"
    and oc: "op_cost_fl s' = fl_mul (Finite (op_cost_site_month ?a)) (Finite (sites ?a))"
    and n: "net_profit_fl s' = fl_sub (gross_value_fl s') (op_cost_fl s')"
    and p: "payback_fl (net_profit_fl s') (capex_total_fl s') = Inr (payback_mo_fl s')"
    using monthly_model_fl_fields [of ?a] by blast
  have eq: "s' = s" using s' assms by simp
  have w': "W_fl s' = PosInf"
    using w big by (simp add: overflowing_cost_inputs_def del: power_mult_distrib)
  have g: "gross_value_fl s' = PosInf"
    using fields w'
    by (simp add: overflowing_cost_inputs_def default_inputs_def clamp_def fl_sub_def f)
  have oc': "op_cost_fl s' = PosInf"
    using oc big by (simp add: overflowing_cost_inputs_def del: power_mult_distrib)
  have n': "net_profit_fl s' = NaN" using n g oc' by (simp add: fl_sub_def)
  have p': "payback_mo_fl s' = NaN" using p n' by (simp add: payback_fl_def)
  show ?thesis using g oc' n' p' eq by simp
qed

text \<open>
  C2, as the spec states it, has the sentinel whenever \<open>op_cost \<ge> gross_value\<close> and never
  NaN. With \<open>sites = lbs_per_site_month = op_cost_site_month = 1e200\<close> both
  \<open>gross_value\<close> and \<open>op_cost\<close> overflow to infinity, so \<open>op_cost >= gross_value\<close> is
  true, \<open>net_profit = inf - inf\<close> is NaN, \<open>net_profit <= 0\<close> is false and
  \<open>payback_mo = capex_total / net_profit\<close> is NaN.
\<close>

theorem payback_sentinel_counterexample:
  "map_sum id gross_value_fl (monthly_model_fl overflowing_cost_inputs) = Inr PosInf
   \<and> map_sum id op_cost_fl (monthly_model_fl overflowing_cost_inputs) = Inr PosInf
   \<and> fl_le PosInf PosInf
   \<and> map_sum id net_profit_fl (monthly_model_fl overflowing_cost_inputs) = Inr NaN
   \<and> map_sum id payback_mo_fl (monthly_model_fl overflowing_cost_inputs) = Inr NaN"
proof -
  obtain s where s: "monthly_model_fl overflowing_cost_inputs = Inr s"
    using monthly_model_fl_fields [of overflowing_cost_inputs] by blast
  show ?thesis using s overflowing_cost_values [OF s] by simp
qed

text \<open>
  C2, amended. For every input the monthly calculations finish without an exception;
  \<open>payback_mo\<close> is the float quotient \<open>capex_total / net_profit\<close> when
  \<open>net_profit > 0\<close> and the sentinel \<open>float("inf")\<close> when \<open>net_profit \<le> 0\<close>, in
  particular when \<open>op_cost \<ge> gross_value\<close> and \<open>net_profit\<close> is not NaN. \<open>net_profit\<close>
  is NaN only when \<open>gross_value\<close> and \<open>op_cost\<close> are not both finite, and then
  \<open>payback_mo\<close> is NaN.
\<close>

theorem payback_float:
  "\<exists>s. monthly_model_fl a = Inr s
     \<and> net_profit_fl s = fl_sub (gross_value_fl s) (op_cost_fl s)
     \<and> capex_total_fl s = fl_mul (Finite (capex_per_site a)) (Finite (sites a))
     \<and> (fl_lt (Finite 0) (net_profit_fl s) \<longrightarrow>
          fl_div (capex_total_fl s) (net_profit_fl s) = Inr (payback_mo_fl s))
     \<and> (fl_le (net_profit_fl s) (Finite 0) \<longrightarrow> payback_mo_fl s = PosInf)
     \<and> (fl_le (gross_value_fl s) (op_cost_fl s) \<and> net_profit_fl s \<noteq> NaN \<longrightarrow>
          payback_mo_fl s = PosInf)
     \<and> (net_profit_fl s = NaN \<longrightarrow>
          payback_mo_fl s = NaN
        \<and> \<not> (\<exists>g oc. gross_value_fl s = Finite g \<and> op_cost_fl s = Finite oc))"
proof -
  obtain s where s: "monthly_model_fl a = Inr s"
    and n: "net_profit_fl s = fl_sub (gross_value_fl s) (op_cost_fl s)"
    and c: "capex_total_fl s = fl_mul (Finite (capex_per_site a)) (Finite (sites a))"
    and p: "payback_fl (net_profit_fl s) (capex_total_fl s) = Inr (payback_mo_fl s)"
    using monthly_model_fl_fields [of a] by blast
  have pos: "fl_lt (Finite 0) (net_profit_fl s) \<longrightarrow>
          fl_div (capex_total_fl s) (net_profit_fl s) = Inr (payback_mo_fl s)"
    using p fl_lt_not_le_zero by (auto simp add: payback_fl_def)
  have neg: "fl_le (net_profit_fl s) (Finite 0) \<longrightarrow> payback_mo_fl s = PosInf"
    using p by (auto simp add: payback_fl_def)
  have loss: "fl_le (gross_value_fl s) (op_cost_fl s) \<and> net_profit_fl s \<noteq> NaN \<longrightarrow>
          payback_mo_fl s = PosInf"
    using neg n fl_sub_le_zero by auto
  have nan: "net_profit_fl s = NaN \<longrightarrow>
          payback_mo_fl s = NaN
        \<and> \<not> (\<exists>g oc. gross_value_fl s = Finite g \<and> op_cost_fl s = Finite oc)"
    using p n fl_sub_Finite_not_NaN by (auto simp add: payback_fl_def)
  show ?thesis using s n c pos neg loss nan by blast
qed

theorem payback_float_witness:
  "(\<exists>s. monthly_model_fl default_inputs = Inr s
        \<and> fl_lt (Finite 0) (net_profit_fl s)
        \<and> fl_div (capex_total_fl s) (net_profit_fl s) = Inr (payback_mo_fl s)
        \<and> payback_mo_fl s = Finite (120000 / 627247.872))
   \<and> (\<exists>s. monthly_model_fl (default_inputs\<lparr>op_cost_site_month := 700000\<rparr>) = Inr s
        \<and> fl_le (gross_value_fl s) (op_cost_fl s)
        \<and> fl_le (net_profit_fl s) (Finite 0) \<and> payback_mo_fl s = PosInf)
   \<and> (\<exists>s. monthly_model_fl overflowing_cost_inputs = Inr s
        \<and> net_profit_fl s = NaN \<and> payback_mo_fl s = NaN)"
proof (intro conjI)
  have d: "default_inputs\<lparr>op_cost_site_month := 18000\<rparr> = default_inputs"
    by (simp add: default_inputs_def)
  obtain s where s: "monthly_model_fl default_inputs = Inr s"
    and pos: "fl_lt (Finite 0) (net_profit_fl s) \<longrightarrow>
          fl_div (capex_total_fl s) (net_profit_fl s) = Inr (payback_mo_fl s)"
    using payback_float [of default_inputs] by blast
  have v: "net_profit_fl s = Finite (645247.872 - 18000) \<and> capex_total_fl s = Finite 120000"
    using default_fl_values [of 18000 s] s d by simp
  then have lt: "fl_lt (Finite 0) (net_profit_fl s)" by simp
  then have q: "fl_div (capex_total_fl s) (net_profit_fl s) = Inr (payback_mo_fl s)"
    using pos by blast
  have "fl (120000 / 627247.872) = Finite (120000 / 627247.872)"
    by (intro fl_small) simp
  then have "payback_mo_fl s = Finite (120000 / 627247.872)"
    using q v by simp
  then show "\<exists>s. monthly_model_fl default_inputs = Inr s
        \<and> fl_lt (Finite 0) (net_profit_fl s)
        \<and> fl_div (capex_total_fl s) (net_profit_fl s) = Inr (payback_mo_fl s)
        \<and> payback_mo_fl s = Finite (120000 / 627247.872)"
    using s lt q by blast
next
  let ?a = "default_inputs\<lparr>op_cost_site_month := 700000\<rparr>"
  obtain s where s: "monthly_model_fl ?a = Inr s"
    and neg: "fl_le (net_profit_fl s) (Finite 0) \<longrightarrow> payback_mo_fl s = PosInf"
    using payback_float [of ?a] by blast
  have v: "gross_value_fl s = Finite 645247.872 \<and> op_cost_fl s = Finite 700000
       \<and> net_profit_fl s = Finite (645247.872 - 700000)"
    using default_fl_values [of 700000 s] s by simp
  then have le: "fl_le (gross_value_fl s) (op_cost_fl s)" "fl_le (net_profit_fl s) (Finite 0)"
    by simp_all
  then show "\<exists>s. monthly_model_fl ?a = Inr s
        \<and> fl_le (gross_value_fl s) (op_cost_fl s)
        \<and> fl_le (net_profit_fl s) (Finite 0) \<and> payback_mo_fl s = PosInf"
    using s neg by blast
next
  obtain s where s: "monthly_model_fl overflowing_cost_inputs = Inr s"
    and nan: "net_profit_fl s = NaN \<longrightarrow> payback_mo_fl s = NaN
        \<and> \<not> (\<exists>g oc. gross_value_fl s = Finite g \<and> op_cost_fl s = Finite oc)"
    using payback_float [of overflowing_cost_inputs] by blast
  have "net_profit_fl s = NaN" using overflowing_cost_values [OF s] by simp
  then show "\<exists>s. monthly_model_fl overflowing_cost_inputs = Inr s
        \<and> net_profit_fl s = NaN \<and> payback_mo_fl s = NaN"
    using s nan by blast
qed


end
